theory Spec2Isabelle
  imports Complex_Main
begin

section \<open>Data model\<close>

text \<open>
  The single entity of the Prisma schema, \<^verbatim>\<open>model User\<close>: \<^verbatim>\<open>id\<close> is the primary
  key, \<^verbatim>\<open>email\<close> carries \<^verbatim>\<open>@unique\<close>, \<^verbatim>\<open>salt\<close> and \<^verbatim>\<open>sessionToken\<close> are
  nullable. The field \<^verbatim>\<open>id\<close> is written \<open>id_user\<close> because \<open>id\<close> is the identity
  function of HOL.
\<close>

record user =
  id_user :: string
  username :: string
  email :: string
  password :: string
  salt :: "string option"
  sessionToken :: "string option"

text \<open>
  The projection of \<^verbatim>\<open>select: { id, email, username, sessionToken }\<close> in
  \<^verbatim>\<open>login\<close>: a value with exactly these four fields.
\<close>

record selected =
  id_sel :: string
  email_sel :: string
  username_sel :: string
  sessionToken_sel :: "string option"

definition select_user :: "user \<Rightarrow> selected" where
  "select_user u =
     \<lparr>id_sel = id_user u, email_sel = email u, username_sel = username u,
      sessionToken_sel = sessionToken u\<rparr>"

section \<open>Requests, responses and the environment of one request\<close>

record cookie =
  cookie_name :: string
  cookie_value :: string
  cookie_domain :: string
  cookie_path :: string

datatype body = StatusText | UserJson user | UsersJson "user list" | SelectedJson selected

record response =
  status :: nat
  body :: body
  set_cookie :: "cookie option"

text \<open>
  The JavaScript values a cookie can hold once \<^verbatim>\<open>app.use(cookieParser())\<close> of
  \<^verbatim>\<open>index.ts\<close> has run: the text of the cookie as a string, or, for a cookie whose
  text is \<^verbatim>\<open>j:\<close> followed by JSON that parses to a truthy value, that parsed value.
  So \<^verbatim>\<open>EXPRESS-API-AUTH=j:{"not":null}\<close> reaches the handlers as the object
  \<^verbatim>\<open>{ not: null }\<close>, and any text that does not begin with \<^verbatim>\<open>j:\<close> as \<open>JStr\<close>
  of itself.
\<close>

datatype json =
  JNull | JBool bool | JNum real | JStr string | JArr "json list" | JObj "(string \<times> json) list"

text \<open>
  The parts of \<^verbatim>\<open>express.Request\<close> that the handlers read. The body fields are the
  strings of the interface, or absent; \<^verbatim>\<open>req.cookies\<close> is the dictionary from cookie
  names to values that the cookie parser leaves; \<^verbatim>\<open>req.params.id\<close> is absent on a
  route without an \<^verbatim>\<open>:id\<close> segment; \<^verbatim>\<open>req.identity\<close> is what
  \<^verbatim>\<open>merge(req, { identity })\<close> attaches.
\<close>

record request =
  body_email :: "string option"
  body_password :: "string option"
  body_username :: "string option"
  cookies :: "string \<rightharpoonup> json"
  params_id :: "string option"
  identity :: "user option"

datatype db_op = FindMany | FindUnique | FindFirst | Create | Update | Delete

datatype db_error = StorageFault db_op | ValidationError | RecordNotFound | UniqueConstraint

text \<open>
  What one request takes from outside the program: the identifier that
  \<^verbatim>\<open>@default(cuid())\<close> generates, the outcome of this request's call of
  \<^verbatim>\<open>bcrypt.hash(_, 10)\<close> (the salt is drawn inside the call, so the function differs
  from request to request), \<^verbatim>\<open>bcrypt.compare\<close>, which storage operations raise an
  unexpected error while the request is served, and what the storage client makes of a
  value that is not a string when it is given as the condition on the nullable string
  column \<^verbatim>\<open>sessionToken\<close>: the test on the column that the value denotes as a filter
  object, or nothing when the client refuses the query.
\<close>

record env =
  cuid :: string
  bcrypt_hash :: "string \<Rightarrow> string"
  bcrypt_compare :: "string \<Rightarrow> string \<Rightarrow> bool"
  fault :: "db_op \<Rightarrow> bool"
  string_filter :: "json \<Rightarrow> (string option \<Rightarrow> bool) option"

text \<open>
  JavaScript's \<^verbatim>\<open>!x\<close> on a value that is a string or \<^verbatim>\<open>undefined\<close>: true when
  the value is absent and when it is the empty string.
\<close>

definition falsy :: "string option \<Rightarrow> bool" where
  "falsy v = (case v of None \<Rightarrow> True | Some s \<Rightarrow> s = [])"

text \<open>
  \<^verbatim>\<open>!x\<close> on the value of a cookie: \<^verbatim>\<open>undefined\<close>, \<^verbatim>\<open>null\<close>, \<^verbatim>\<open>false\<close>,
  zero and the empty string are falsy; every array and every object is truthy.
\<close>

fun falsy_json :: "json \<Rightarrow> bool" where
  "falsy_json JNull = True"
| "falsy_json (JBool b) = (\<not> b)"
| "falsy_json (JNum x) = (x = 0)"
| "falsy_json (JStr s) = (s = [])"
| "falsy_json (JArr xs) = False"
| "falsy_json (JObj kvs) = False"

definition falsy_cookie :: "json option \<Rightarrow> bool" where
  "falsy_cookie v = (case v of None \<Rightarrow> True | Some j \<Rightarrow> falsy_json j)"

definition sendStatus :: "nat \<Rightarrow> response" where
  "sendStatus c = \<lparr>status = c, body = StatusText, set_cookie = None\<rparr>"

definition json :: "nat \<Rightarrow> body \<Rightarrow> response" where
  "json c b = \<lparr>status = c, body = b, set_cookie = None\<rparr>"

text \<open>
  Express's \<^verbatim>\<open>res.cookie(name, value)\<close> writes \<^verbatim>\<open>String(value)\<close>, and
  \<^verbatim>\<open>'j:' + JSON.stringify(value)\<close> when the value is an object, which
  \<^verbatim>\<open>null\<close> is.
\<close>

definition cookie_string :: "string option \<Rightarrow> string" where
  "cookie_string v = (case v of None \<Rightarrow> ''j:null'' | Some s \<Rightarrow> s)"

section \<open>The credential store\<close>

text \<open>
  Modelled from the spec: the module \<^verbatim>\<open>../db\<close> (the Prisma client every handler
  imports) is not among the sources. The table is the list of its rows, in table order.
  \<^verbatim>\<open>findUnique\<close> is the spec's \<^verbatim>\<open>findByUniqueField(field, value) -> Record?\<close>,
  here for the unique field \<^verbatim>\<open>email\<close>.
\<close>

definition findUnique_email :: "env \<Rightarrow> user list \<Rightarrow> string \<Rightarrow> db_error + user option" where
  "findUnique_email ev rows e =
     (if fault ev FindUnique then Inl (StorageFault FindUnique)
      else Inr (find (\<lambda>u. email u = e) rows))"

text \<open>
  Modelled from the spec: \<^verbatim>\<open>findByUniqueField\<close> of the missing module \<^verbatim>\<open>../db\<close>
  for the primary key \<^verbatim>\<open>id\<close>.
\<close>

definition findUnique_id :: "env \<Rightarrow> user list \<Rightarrow> string \<Rightarrow> db_error + user option" where
  "findUnique_id ev rows i =
     (if fault ev FindUnique then Inl (StorageFault FindUnique)
      else Inr (find (\<lambda>u. id_user u = i) rows))"

text \<open>
  Modelled from the spec: \<^verbatim>\<open>findFirstByField(field, value) -> Record?\<close> of the
  missing module \<^verbatim>\<open>../db\<close>, for the field \<^verbatim>\<open>sessionToken\<close>: for a string, the
  first row whose token equals it. The caller passes whatever the cookie holds; a value
  that is not a string is read by the client as a filter object, and the query is refused
  with an exception when it is none.
\<close>

definition findFirst_sessionToken ::
  "env \<Rightarrow> user list \<Rightarrow> json \<Rightarrow> db_error + user option" where
  "findFirst_sessionToken ev rows v =
     (if fault ev FindFirst then Inl (StorageFault FindFirst)
      else
        (case v of
           JStr t \<Rightarrow> Inr (find (\<lambda>u. sessionToken u = Some t) rows)
         | _ \<Rightarrow>
             (case string_filter ev v of
                None \<Rightarrow> Inl ValidationError
              | Some matches \<Rightarrow> Inr (find (\<lambda>u. matches (sessionToken u)) rows))))"

text \<open>
  Modelled from the spec: \<^verbatim>\<open>listAll() -> Record[]\<close> of the missing module
  \<^verbatim>\<open>../db\<close>.
\<close>

definition findMany :: "env \<Rightarrow> user list \<Rightarrow> db_error + user list" where
  "findMany ev rows = (if fault ev FindMany then Inl (StorageFault FindMany) else Inr rows)"

text \<open>
  Modelled from the spec: \<^verbatim>\<open>create(fields) -> Record\<close> of the missing module
  \<^verbatim>\<open>../db\<close>. The new row takes the generated identifier; the columns the caller
  does not give, \<^verbatim>\<open>salt\<close> and \<^verbatim>\<open>sessionToken\<close>, are null. The primary key and the
  unique index on \<^verbatim>\<open>email\<close> reject a duplicate.
\<close>

definition create :: "env \<Rightarrow> user list \<Rightarrow> string \<Rightarrow> string \<Rightarrow> string \<Rightarrow> db_error + user \<times> user list" where
  "create ev rows e p n =
     (if fault ev Create then Inl (StorageFault Create)
      else if (\<exists>u \<in> set rows. id_user u = cuid ev \<or> email u = e) then Inl UniqueConstraint
      else
        (let newUser = \<lparr>id_user = cuid ev, username = n, email = e, password = p,
                        salt = None, sessionToken = None\<rparr>
         in Inr (newUser, rows @ [newUser])))"

text \<open>
  Modelled from the spec: \<^verbatim>\<open>updateById(id, fields) -> Record\<close> (fails if absent) of
  the missing module \<^verbatim>\<open>../db\<close>. The fields to write are given as the function
  \<open>f\<close> on the row.
\<close>

definition update :: "env \<Rightarrow> user list \<Rightarrow> string \<Rightarrow> (user \<Rightarrow> user) \<Rightarrow> db_error + user \<times> user list" where
  "update ev rows i f =
     (if fault ev Update then Inl (StorageFault Update)
      else
        (case find (\<lambda>u. id_user u = i) rows of
           None \<Rightarrow> Inl RecordNotFound
         | Some u \<Rightarrow> Inr (f u, map (\<lambda>r. if id_user r = i then f r else r) rows)))"

text \<open>
  Modelled from the spec: \<^verbatim>\<open>deleteById(id) -> Record\<close> (fails if absent) of the
  missing module \<^verbatim>\<open>../db\<close>.
\<close>

definition delete :: "env \<Rightarrow> user list \<Rightarrow> string \<Rightarrow> db_error + user \<times> user list" where
  "delete ev rows i =
     (if fault ev Delete then Inl (StorageFault Delete)
      else
        (case find (\<lambda>u. id_user u = i) rows of
           None \<Rightarrow> Inl RecordNotFound
         | Some u \<Rightarrow> Inr (u, filter (\<lambda>r. id_user r \<noteq> i) rows)))"

text \<open>The primary key and the unique index of the table.\<close>

definition table_ok :: "user list \<Rightarrow> bool" where
  "table_ok rows = (distinct (map id_user rows) \<and> distinct (map email rows))"

text \<open>
  No stored token is the empty string: registration stores no token, and login stores a
  digest of the hash primitive.
\<close>

definition tokens_ok :: "user list \<Rightarrow> bool" where
  "tokens_ok rows = (\<forall>u \<in> set rows. sessionToken u \<noteq> Some [])"

section \<open>controllers/auth.ts\<close>

text \<open>
  A handler takes the environment, the table and the request, and returns the response
  with the table it leaves. Every \<^verbatim>\<open>catch\<close> of the source answers 400 and the table
  is as the failed operation left it, that is, unchanged.
\<close>

definition register :: "env \<Rightarrow> user list \<Rightarrow> request \<Rightarrow> response \<times> user list" where
  "register ev rows req =
     (case (body_email req, body_password req, body_username req) of
        (Some e, Some p, Some n) \<Rightarrow>
          if falsy (Some e) \<or> falsy (Some p) \<or> falsy (Some n) then (sendStatus 400, rows)
          else
            (case findUnique_email ev rows e of
               Inl err \<Rightarrow> (sendStatus 400, rows)
             | Inr (Some existingUser) \<Rightarrow> (sendStatus 409, rows)
             | Inr None \<Rightarrow>
                 (let hashedPassword = bcrypt_hash ev p in
                  case create ev rows e hashedPassword n of
                    Inl err \<Rightarrow> (sendStatus 400, rows)
                  | Inr (newUser, rows') \<Rightarrow> (json 200 (UserJson newUser), rows')))
      | _ \<Rightarrow> (sendStatus 400, rows))"

definition login :: "env \<Rightarrow> user list \<Rightarrow> request \<Rightarrow> response \<times> user list" where
  "login ev rows req =
     (case (body_email req, body_password req) of
        (Some e, Some p) \<Rightarrow>
          if falsy (Some e) \<or> falsy (Some p) then (sendStatus 400, rows)
          else
            (case findUnique_email ev rows e of
               Inl err \<Rightarrow> (sendStatus 400, rows)
             | Inr None \<Rightarrow> (sendStatus 401, rows)
             | Inr (Some existingUser) \<Rightarrow>
                 if \<not> bcrypt_compare ev p (password existingUser) then (sendStatus 401, rows)
                 else
                   (let token = bcrypt_hash ev (id_user existingUser) in
                    case update ev rows (id_user existingUser)
                           (\<lambda>u. u\<lparr>sessionToken := Some token\<rparr>) of
                      Inl err \<Rightarrow> (sendStatus 400, rows)
                    | Inr (updatedUser, rows') \<Rightarrow>
                        ((json 200 (SelectedJson (select_user updatedUser)))
                           \<lparr>set_cookie := Some
                              \<lparr>cookie_name = ''EXPRESS-API-AUTH'',
                               cookie_value = cookie_string (sessionToken updatedUser),
                               cookie_domain = ''localhost'',
                               cookie_path = ''/''\<rparr>\<rparr>,
                         rows')))
      | _ \<Rightarrow> (sendStatus 400, rows))"

section \<open>middleware/index.ts\<close>

datatype gate = Reject response | Next request

text \<open>
  The source tests \<^verbatim>\<open>!sessionToken\<close> and nothing else before the lookup: it does
  not ask whether the cookie's value is a string.
\<close>

definition isAuthenticated :: "env \<Rightarrow> user list \<Rightarrow> request \<Rightarrow> gate" where
  "isAuthenticated ev rows req =
     (case cookies req ''EXPRESS-API-AUTH'' of
        None \<Rightarrow> Reject (sendStatus 403)
      | Some token \<Rightarrow>
          if falsy_cookie (Some token) then Reject (sendStatus 403)
          else
            (case findFirst_sessionToken ev rows token of
               Inl err \<Rightarrow> Reject (sendStatus 400)
             | Inr None \<Rightarrow> Reject (sendStatus 403)
             | Inr (Some existingUser) \<Rightarrow> Next (req\<lparr>identity := Some existingUser\<rparr>)))"

text \<open>
  \<^verbatim>\<open>get(req, "identity.id")\<close> is the identifier of the attached record, or
  \<^verbatim>\<open>undefined\<close>. The function reads the request only: its source never mentions
  \<^verbatim>\<open>db\<close>.
\<close>

definition isOwnAccount :: "request \<Rightarrow> gate" where
  "isOwnAccount req =
     (case map_option id_user (identity req) of
        None \<Rightarrow> Reject (sendStatus 403)
      | Some currentUserId \<Rightarrow>
          if falsy (Some currentUserId) then Reject (sendStatus 403)
          else if Some currentUserId \<noteq> params_id req then Reject (sendStatus 403)
          else Next req)"

section \<open>controllers/users.ts\<close>

definition getAllUsers :: "env \<Rightarrow> user list \<Rightarrow> request \<Rightarrow> response \<times> user list" where
  "getAllUsers ev rows req =
     (case findMany ev rows of
        Inl err \<Rightarrow> (sendStatus 400, rows)
      | Inr users \<Rightarrow> (json 200 (UsersJson users), rows))"

text \<open>
  With \<^verbatim>\<open>req.params.id\<close> undefined the client rejects the \<^verbatim>\<open>where\<close> clause with
  an exception, which the \<^verbatim>\<open>catch\<close> turns into 400.
\<close>

definition deleteUser :: "env \<Rightarrow> user list \<Rightarrow> request \<Rightarrow> response \<times> user list" where
  "deleteUser ev rows req =
     (case params_id req of
        None \<Rightarrow> (sendStatus 400, rows)
      | Some i \<Rightarrow>
          (case delete ev rows i of
             Inl err \<Rightarrow> (sendStatus 400, rows)
           | Inr (deleteduser, rows') \<Rightarrow> (json 200 (UserJson deleteduser), rows')))"

definition updateUser :: "env \<Rightarrow> user list \<Rightarrow> request \<Rightarrow> response \<times> user list" where
  "updateUser ev rows req =
     (case body_username req of
        None \<Rightarrow> (sendStatus 400, rows)
      | Some n \<Rightarrow>
          if falsy (Some n) then (sendStatus 400, rows)
          else
            (case params_id req of
               None \<Rightarrow> (sendStatus 400, rows)
             | Some i \<Rightarrow>
                 (case findUnique_id ev rows i of
                    Inl err \<Rightarrow> (sendStatus 400, rows)
                  | Inr None \<Rightarrow> (sendStatus 400, rows)
                  | Inr (Some existinguser) \<Rightarrow>
                      (case update ev rows i (\<lambda>u. u\<lparr>username := n\<rparr>) of
                         Inl err \<Rightarrow> (sendStatus 400, rows)
                       | Inr (updateduser, rows') \<Rightarrow>
                           (json 200 (UserJson updateduser), rows')))))"

section \<open>router/users.ts\<close>

text \<open>
  \<^verbatim>\<open>router.get("/users", isAuthenticated, getAllUsers)\<close> and the two routes on
  \<^verbatim>\<open>/users/:id\<close>: the handlers of a route run in order, and the first that answers
  ends the request.
\<close>

definition get_users :: "env \<Rightarrow> user list \<Rightarrow> request \<Rightarrow> response \<times> user list" where
  "get_users ev rows req =
     (case isAuthenticated ev rows req of
        Reject r \<Rightarrow> (r, rows)
      | Next req1 \<Rightarrow> getAllUsers ev rows req1)"

definition delete_users_id :: "env \<Rightarrow> user list \<Rightarrow> request \<Rightarrow> response \<times> user list" where
  "delete_users_id ev rows req =
     (case isAuthenticated ev rows req of
        Reject r \<Rightarrow> (r, rows)
      | Next req1 \<Rightarrow>
          (case isOwnAccount req1 of
             Reject r \<Rightarrow> (r, rows)
           | Next req2 \<Rightarrow> deleteUser ev rows req2))"

definition patch_users_id :: "env \<Rightarrow> user list \<Rightarrow> request \<Rightarrow> response \<times> user list" where
  "patch_users_id ev rows req =
     (case isAuthenticated ev rows req of
        Reject r \<Rightarrow> (r, rows)
      | Next req1 \<Rightarrow>
          (case isOwnAccount req1 of
             Reject r \<Rightarrow> (r, rows)
           | Next req2 \<Rightarrow> updateUser ev rows req2))"

section \<open>Sample data\<close>

text \<open>
  A table of two users, an environment in which no storage operation fails and one in
  which every one does, and a stand-in for the hashing primitive, for evaluating the
  handlers on concrete requests.
\<close>

definition sample_hash :: "string \<Rightarrow> string" where
  "sample_hash d = ''$2b$10$'' @ d"

definition sample_compare :: "string \<Rightarrow> string \<Rightarrow> bool" where
  "sample_compare d g = (g = sample_hash d)"

text \<open>
  The client reads \<^verbatim>\<open>{ not: null }\<close> as the test that the column is not null. The
  sample refuses every other value that is not a string, as the client does a number, a
  boolean or an array.
\<close>

definition sample_filter :: "json \<Rightarrow> (string option \<Rightarrow> bool) option" where
  "sample_filter v =
     (if v = JObj [(''not'', JNull)] then Some (\<lambda>column. column \<noteq> None) else None)"

definition sample_env :: env where
  "sample_env =
     \<lparr>cuid = ''c3'', bcrypt_hash = sample_hash, bcrypt_compare = sample_compare,
      fault = (\<lambda>operation. False), string_filter = sample_filter\<rparr>"

definition faulty_env :: env where
  "faulty_env = sample_env\<lparr>fault := (\<lambda>operation. True)\<rparr>"

definition alice :: user where
  "alice =
     \<lparr>id_user = ''c1'', username = ''a'', email = ''a@x.com'', password = ''$2b$10$p'',
      salt = None, sessionToken = None\<rparr>"

definition bob :: user where
  "bob =
     \<lparr>id_user = ''c2'', username = ''b'', email = ''b@x.com'', password = ''$2b$10$q'',
      salt = None, sessionToken = Some ''$2b$10$old''\<rparr>"

definition sample_rows :: "user list" where
  "sample_rows = [alice, bob]"

definition blank :: request where
  "blank =
     \<lparr>body_email = None, body_password = None, body_username = None,
      cookies = Map.empty, params_id = None, identity = None\<rparr>"

definition with_cookie :: "string \<Rightarrow> request" where
  "with_cookie v = blank\<lparr>cookies := [''EXPRESS-API-AUTH'' \<mapsto> JStr v]\<rparr>"

text \<open>
  The request whose header is \<^verbatim>\<open>Cookie: EXPRESS-API-AUTH=j:{"not":null}\<close>, as the
  handlers receive it.
\<close>

definition with_object_cookie :: request where
  "with_object_cookie = blank\<lparr>cookies := [''EXPRESS-API-AUTH'' \<mapsto> JObj [(''not'', JNull)]]\<rparr>"

definition credentials :: "string \<Rightarrow> string \<Rightarrow> request" where
  "credentials e p = blank\<lparr>body_email := Some e, body_password := Some p\<rparr>"

definition signup :: "string \<Rightarrow> string \<Rightarrow> string \<Rightarrow> request" where
  "signup e p n =
     blank\<lparr>body_email := Some e, body_password := Some p, body_username := Some n\<rparr>"

definition rename :: "string \<Rightarrow> string \<Rightarrow> request" where
  "rename i n = blank\<lparr>body_username := Some n, params_id := Some i\<rparr>"

definition carol :: user where
  "carol =
     \<lparr>id_user = ''c3'', username = ''c'', email = ''c@x.com'', password = ''$2b$10$s'',
      salt = None, sessionToken = None\<rparr>"

section \<open>Lookups in the table\<close>

lemma find_key_Some:
  "distinct (map f xs) \<Longrightarrow> x \<in> set xs \<Longrightarrow> find (\<lambda>r. f r = f x) xs = Some x"
  by (induction xs) (auto simp: image_iff)

lemma find_Some_ex:
  "\<exists>x \<in> set xs. P x \<Longrightarrow> \<exists>y. find P xs = Some y \<and> y \<in> set xs \<and> P y"
  by (induction xs) auto

lemma find_id_row:
  "table_ok rows \<Longrightarrow> u \<in> set rows \<Longrightarrow> find (\<lambda>r. id_user r = id_user u) rows = Some u"
  by (simp add: table_ok_def find_key_Some)

lemma find_email_row:
  "table_ok rows \<Longrightarrow> u \<in> set rows \<Longrightarrow> find (\<lambda>r. email r = email u) rows = Some u"
  by (simp add: table_ok_def find_key_Some)

lemma same_id_same_row:
  "table_ok rows \<Longrightarrow> u \<in> set rows \<Longrightarrow> r \<in> set rows \<Longrightarrow> id_user r = id_user u \<Longrightarrow> r = u"
  by (auto simp: table_ok_def distinct_map inj_on_def)

lemma table_ok_sample: "table_ok sample_rows"
  by (simp add: table_ok_def sample_rows_def alice_def bob_def)

lemma find_token_after_update:
  assumes "table_ok rows" "u \<in> set rows"
    and "\<forall>r \<in> set rows. id_user r \<noteq> id_user u \<longrightarrow> sessionToken r \<noteq> Some t"
  shows "find (\<lambda>r. sessionToken r = Some t)
           (map (\<lambda>r. if id_user r = id_user u then r\<lparr>sessionToken := Some t\<rparr> else r) rows)
         = Some (u\<lparr>sessionToken := Some t\<rparr>)"
  using assms unfolding table_ok_def
proof (induction rows)
  case Nil
  then show ?case by simp
next
  case (Cons a rows)
  show ?case
  proof (cases "a = u")
    case True
    then show ?thesis by simp
  next
    case False
    with Cons.prems have "id_user a \<noteq> id_user u" by (auto simp: image_iff)
    with Cons False show ?thesis by auto
  qed
qed

section \<open>What a successful login computes\<close>

lemma login_ok:
  assumes "table_ok rows" "u \<in> set rows"
    and "body_email req = Some (email u)" "email u \<noteq> []"
    and "body_password req = Some p" "p \<noteq> []"
    and "bcrypt_compare ev p (password u)"
    and "\<not> fault ev FindUnique" "\<not> fault ev Update"
  shows "login ev rows req =
     (\<lparr>status = 200,
       body = SelectedJson \<lparr>id_sel = id_user u, email_sel = email u, username_sel = username u,
                            sessionToken_sel = Some (bcrypt_hash ev (id_user u))\<rparr>,
       set_cookie = Some \<lparr>cookie_name = ''EXPRESS-API-AUTH'',
                          cookie_value = bcrypt_hash ev (id_user u),
                          cookie_domain = ''localhost'', cookie_path = ''/''\<rparr>\<rparr>,
      map (\<lambda>r. if id_user r = id_user u
                then r\<lparr>sessionToken := Some (bcrypt_hash ev (id_user u))\<rparr> else r) rows)"
proof -
  have e: "find (\<lambda>r. email r = email u) rows = Some u"
    using assms(1,2) by (rule find_email_row)
  have i: "find (\<lambda>r. id_user r = id_user u) rows = Some u"
    using assms(1,2) by (rule find_id_row)
  show ?thesis
    using assms(3-9) e i
    by (simp add: login_def falsy_def findUnique_email_def update_def json_def
        select_user_def cookie_string_def Let_def)
qed

lemma login_200:
  assumes "login ev rows req = (res, rows')" and "status res = 200"
  shows "\<exists>e u. body_email req = Some e \<and> find (\<lambda>r. email r = e) rows = Some u
           \<and> rows' = map (\<lambda>r. if id_user r = id_user u
                then r\<lparr>sessionToken := Some (bcrypt_hash ev (id_user u))\<rparr> else r) rows"
  using assms
  by (auto simp: login_def sendStatus_def findUnique_email_def update_def Let_def
      split: option.splits if_splits sum.splits prod.splits)

lemma sample_login:
  "table_ok sample_rows \<and> bob \<in> set sample_rows
   \<and> body_email (credentials ''b@x.com'' ''q'') = Some (email bob) \<and> email bob \<noteq> []
   \<and> body_password (credentials ''b@x.com'' ''q'') = Some ''q'' \<and> ''q'' \<noteq> []
   \<and> bcrypt_compare sample_env ''q'' (password bob)
   \<and> \<not> fault sample_env FindUnique \<and> \<not> fault sample_env Update"
proof -
  have "bob \<in> set sample_rows"
    by (simp add: sample_rows_def)
  moreover have "body_email (credentials ''b@x.com'' ''q'') = Some (email bob) \<and> email bob \<noteq> []
   \<and> body_password (credentials ''b@x.com'' ''q'') = Some ''q'' \<and> ''q'' \<noteq> []
   \<and> bcrypt_compare sample_env ''q'' (password bob)
   \<and> \<not> fault sample_env FindUnique \<and> \<not> fault sample_env Update"
    by (simp add: bob_def credentials_def blank_def sample_env_def sample_compare_def
        sample_hash_def)
  ultimately show ?thesis
    using table_ok_sample by blast
qed

section \<open>Invariants of the table\<close>

text \<open>
  Every handler returns the table it was given, or that table with one row appended,
  some rows updated in one field, or some rows removed. The key constraints are kept by
  each of them, and so is the absence of empty tokens as long as the hash primitive
  returns no empty digest. On such a table the Authentication Gate decides any cookie
  whose value is a string, the empty one included, by the lookup alone.
\<close>

lemma map_key_update:
  "(\<And>r. g (f r) = g r) \<Longrightarrow> map (g \<circ> (\<lambda>r. if P r then f r else r)) rows = map g rows"
  by (induction rows) auto

lemma register_rows:
  "snd (register ev rows req) = rows
   \<or> (\<exists>nu. snd (register ev rows req) = rows @ [nu] \<and> sessionToken nu = None
         \<and> (\<forall>u \<in> set rows. id_user u \<noteq> id_user nu \<and> email u \<noteq> email nu))"
  by (simp add: register_def create_def Let_def split: option.splits sum.splits)

lemma login_rows:
  "snd (login ev rows req) = rows
   \<or> (\<exists>i. snd (login ev rows req) =
         map (\<lambda>r. if id_user r = i then r\<lparr>sessionToken := Some (bcrypt_hash ev i)\<rparr> else r) rows)"
  by (simp add: login_def update_def Let_def split: option.splits sum.splits) blast

lemma updateUser_rows:
  "snd (updateUser ev rows req) = rows
   \<or> (\<exists>i n. snd (updateUser ev rows req) =
         map (\<lambda>r. if id_user r = i then r\<lparr>username := n\<rparr> else r) rows)"
  by (simp add: updateUser_def update_def split: option.splits sum.splits) blast

lemma deleteUser_rows:
  "snd (deleteUser ev rows req) = rows
   \<or> (\<exists>i. snd (deleteUser ev rows req) = filter (\<lambda>r. id_user r \<noteq> i) rows)"
  by (simp add: deleteUser_def delete_def split: option.splits sum.splits) blast

lemma register_table_ok: "table_ok rows \<Longrightarrow> table_ok (snd (register ev rows req))"
  using register_rows [of ev rows req] by (fastforce simp: table_ok_def)

lemma login_table_ok: "table_ok rows \<Longrightarrow> table_ok (snd (login ev rows req))"
  using login_rows [of ev rows req] by (auto simp: table_ok_def map_key_update)

lemma updateUser_table_ok: "table_ok rows \<Longrightarrow> table_ok (snd (updateUser ev rows req))"
  using updateUser_rows [of ev rows req] by (auto simp: table_ok_def map_key_update)

lemma deleteUser_table_ok: "table_ok rows \<Longrightarrow> table_ok (snd (deleteUser ev rows req))"
  using deleteUser_rows [of ev rows req] by (auto simp: table_ok_def distinct_map_filter)

lemma register_tokens_ok: "tokens_ok rows \<Longrightarrow> tokens_ok (snd (register ev rows req))"
  using register_rows [of ev rows req] by (auto simp: tokens_ok_def)

lemma login_tokens_ok:
  "tokens_ok rows \<Longrightarrow> (\<And>x. bcrypt_hash ev x \<noteq> []) \<Longrightarrow> tokens_ok (snd (login ev rows req))"
  using login_rows [of ev rows req] by (auto simp: tokens_ok_def)

lemma updateUser_tokens_ok: "tokens_ok rows \<Longrightarrow> tokens_ok (snd (updateUser ev rows req))"
  using updateUser_rows [of ev rows req] by (auto simp: tokens_ok_def)

lemma deleteUser_tokens_ok: "tokens_ok rows \<Longrightarrow> tokens_ok (snd (deleteUser ev rows req))"
  using deleteUser_rows [of ev rows req] by (auto simp: tokens_ok_def)

lemma gate_any_cookie:
  assumes "tokens_ok rows" "\<not> fault ev FindFirst"
    and "cookies req ''EXPRESS-API-AUTH'' = Some (JStr t)"
  shows "isAuthenticated ev rows req =
     (case find (\<lambda>r. sessionToken r = Some t) rows of
        None \<Rightarrow> Reject (sendStatus 403)
      | Some u \<Rightarrow> Next (req\<lparr>identity := Some u\<rparr>))"
proof (cases "t = []")
  case True
  with assms(1) have "find (\<lambda>r. sessionToken r = Some t) rows = None"
    by (simp add: find_None_iff tokens_ok_def)
  with assms(3) True show ?thesis
    by (simp add: isAuthenticated_def falsy_cookie_def)
next
  case False
  with assms(2,3) show ?thesis
    by (simp add: isAuthenticated_def falsy_cookie_def findFirst_sessionToken_def)
qed

section \<open>Properties of the handlers\<close>

text \<open>
  The gate on a cookie whose value is a string, the empty string counting as absent by
  \<^verbatim>\<open>!sessionToken\<close>: 403 without the cookie, 403 when no stored token equals the
  value, the first record with that token attached otherwise, and 400 when the lookup
  raises an unexpected storage error.
\<close>

lemma gate_string_cookie:
  "(cookies req ''EXPRESS-API-AUTH'' = None \<longrightarrow>
      isAuthenticated ev rows req = Reject (sendStatus 403))
   \<and> (cookies req ''EXPRESS-API-AUTH'' = Some (JStr t) \<and> \<not> fault ev FindFirst
        \<and> (\<forall>u \<in> set rows. sessionToken u \<noteq> Some t) \<longrightarrow>
      isAuthenticated ev rows req = Reject (sendStatus 403))
   \<and> (cookies req ''EXPRESS-API-AUTH'' = Some (JStr t) \<and> t \<noteq> [] \<and> \<not> fault ev FindFirst
        \<and> (\<exists>u \<in> set rows. sessionToken u = Some t) \<longrightarrow>
      (\<exists>u \<in> set rows. sessionToken u = Some t
         \<and> find (\<lambda>r. sessionToken r = Some t) rows = Some u
         \<and> isAuthenticated ev rows req = Next (req\<lparr>identity := Some u\<rparr>)))
   \<and> (cookies req ''EXPRESS-API-AUTH'' = Some (JStr t) \<and> t \<noteq> [] \<and> fault ev FindFirst \<longrightarrow>
      isAuthenticated ev rows req = Reject (sendStatus 400))"
proof (intro conjI impI)
  assume "cookies req ''EXPRESS-API-AUTH'' = None"
  then show "isAuthenticated ev rows req = Reject (sendStatus 403)"
    by (simp add: isAuthenticated_def)
next
  assume a: "cookies req ''EXPRESS-API-AUTH'' = Some (JStr t) \<and> \<not> fault ev FindFirst
    \<and> (\<forall>u \<in> set rows. sessionToken u \<noteq> Some t)"
  then have "find (\<lambda>u. sessionToken u = Some t) rows = None"
    by (simp add: find_None_iff)
  with a show "isAuthenticated ev rows req = Reject (sendStatus 403)"
    by (simp add: isAuthenticated_def findFirst_sessionToken_def falsy_cookie_def)
next
  assume a: "cookies req ''EXPRESS-API-AUTH'' = Some (JStr t) \<and> t \<noteq> []
    \<and> \<not> fault ev FindFirst \<and> (\<exists>u \<in> set rows. sessionToken u = Some t)"
  then obtain u where u: "find (\<lambda>r. sessionToken r = Some t) rows = Some u"
      "u \<in> set rows" "sessionToken u = Some t"
    using find_Some_ex [of rows "\<lambda>r. sessionToken r = Some t"] by blast
  with a have "isAuthenticated ev rows req = Next (req\<lparr>identity := Some u\<rparr>)"
    by (simp add: isAuthenticated_def findFirst_sessionToken_def falsy_cookie_def)
  with u show "\<exists>u \<in> set rows. sessionToken u = Some t
         \<and> find (\<lambda>r. sessionToken r = Some t) rows = Some u
         \<and> isAuthenticated ev rows req = Next (req\<lparr>identity := Some u\<rparr>)"
    by blast
next
  assume "cookies req ''EXPRESS-API-AUTH'' = Some (JStr t) \<and> t \<noteq> [] \<and> fault ev FindFirst"
  then show "isAuthenticated ev rows req = Reject (sendStatus 400)"
    by (simp add: isAuthenticated_def findFirst_sessionToken_def falsy_cookie_def)
qed

text \<open>
  The gate on a cookie whose value is an object: the object goes to the lookup as it is,
  and when the client reads it as a filter, the first record that the filter admits is
  attached, whatever its token.
\<close>

lemma gate_object_cookie:
  assumes "cookies req ''EXPRESS-API-AUTH'' = Some (JObj kvs)"
    and "\<not> fault ev FindFirst"
    and "string_filter ev (JObj kvs) = Some matches"
    and "find (\<lambda>u. matches (sessionToken u)) rows = Some u"
  shows "isAuthenticated ev rows req = Next (req\<lparr>identity := Some u\<rparr>)"
  using assms
  by (simp add: isAuthenticated_def findFirst_sessionToken_def falsy_cookie_def)

text \<open>
  C1 (Authentication Gate). The claim asks for 403 on every request whose cookie equals
  no stored \<^verbatim>\<open>sessionToken\<close>. The code does not do so for the request with the header
  \<^verbatim>\<open>Cookie: EXPRESS-API-AUTH=j:{"not":null}\<close>: the cookie parser hands the gate the
  object \<^verbatim>\<open>{ not: null }\<close>, the gate tests only \<^verbatim>\<open>!sessionToken\<close> and passes the
  object to \<^verbatim>\<open>findFirst\<close> as the condition on \<^verbatim>\<open>sessionToken\<close>, and the lookup
  returns the first record that has any token. No stored token is the cookie's value,
  yet the gate attaches that record and calls the next handler: \<^verbatim>\<open>GET /users\<close>
  answers 200 with every record, and \<^verbatim>\<open>DELETE /users/c2\<close> deletes that user's record.
\<close>

theorem isAuthenticated_object_cookie:
  "find (\<lambda>u. map_option JStr (sessionToken u) = cookies with_object_cookie ''EXPRESS-API-AUTH'')
     sample_rows = None
   \<and> isAuthenticated sample_env sample_rows with_object_cookie =
       Next (with_object_cookie\<lparr>identity := Some bob\<rparr>)
   \<and> get_users sample_env sample_rows with_object_cookie =
       (\<lparr>status = 200, body = UsersJson [alice, bob], set_cookie = None\<rparr>, [alice, bob])
   \<and> delete_users_id sample_env sample_rows (with_object_cookie\<lparr>params_id := Some ''c2''\<rparr>) =
       (\<lparr>status = 200, body = UserJson bob, set_cookie = None\<rparr>, [alice])"
proof -
  have n: "find (\<lambda>u. map_option JStr (sessionToken u) =
      cookies with_object_cookie ''EXPRESS-API-AUTH'') sample_rows = None"
    by (simp add: with_object_cookie_def sample_rows_def alice_def bob_def)
  have f: "find (\<lambda>u. sessionToken u \<noteq> None) sample_rows = Some bob"
    by (simp add: sample_rows_def alice_def bob_def)
  have e: "\<not> fault sample_env FindFirst" "\<not> fault sample_env FindMany"
    "\<not> fault sample_env Delete"
    "string_filter sample_env (JObj [(''not'', JNull)]) = Some (\<lambda>column. column \<noteq> None)"
    by (simp_all add: sample_env_def sample_filter_def)
  have g: "isAuthenticated sample_env sample_rows with_object_cookie =
      Next (with_object_cookie\<lparr>identity := Some bob\<rparr>)"
    by (rule gate_object_cookie [OF _ e(1) e(4) f]) (simp add: with_object_cookie_def)
  have g': "isAuthenticated sample_env sample_rows (with_object_cookie\<lparr>params_id := Some ''c2''\<rparr>) =
      Next (with_object_cookie\<lparr>params_id := Some ''c2'', identity := Some bob\<rparr>)"
    by (rule gate_object_cookie [OF _ e(1) e(4) f]) (simp add: with_object_cookie_def)
  have o: "isOwnAccount (with_object_cookie\<lparr>params_id := Some ''c2'', identity := Some bob\<rparr>) =
      Next (with_object_cookie\<lparr>params_id := Some ''c2'', identity := Some bob\<rparr>)"
    by (simp add: isOwnAccount_def falsy_def bob_def)
  have l: "get_users sample_env sample_rows with_object_cookie =
      (\<lparr>status = 200, body = UsersJson [alice, bob], set_cookie = None\<rparr>, [alice, bob])"
  proof -
    have "get_users sample_env sample_rows with_object_cookie =
        (json 200 (UsersJson sample_rows), sample_rows)"
      using e(2) by (simp add: get_users_def g getAllUsers_def findMany_def)
    then show ?thesis
      by (simp add: json_def sample_rows_def)
  qed
  have k: "find (\<lambda>u. id_user u = ''c2'') sample_rows = Some bob"
      "filter (\<lambda>r. id_user r \<noteq> ''c2'') sample_rows = [alice]"
    by (simp_all add: sample_rows_def alice_def bob_def)
  have d: "delete_users_id sample_env sample_rows (with_object_cookie\<lparr>params_id := Some ''c2''\<rparr>) =
      (\<lparr>status = 200, body = UserJson bob, set_cookie = None\<rparr>, [alice])"
    using e(3) k
    by (simp add: delete_users_id_def g' o deleteUser_def delete_def json_def)
  from n g l d show ?thesis
    by - (intro conjI; assumption)
qed

text \<open>
  C2 (Ownership Gate). With no identity on the request the gate answers 403; with an
  identity whose \<^verbatim>\<open>id\<close> differs from the path parameter it answers 403; with an identity
  whose \<^verbatim>\<open>id\<close> is the path parameter (a segment matched by \<^verbatim>\<open>:id\<close>, hence not empty)
  the request goes on unchanged. The gate reads the request only, so on the routes
  \<^verbatim>\<open>DELETE /users/:id\<close> and \<^verbatim>\<open>PATCH /users/:id\<close> a request that passed the
  Authentication Gate and is rejected here leaves the table as it was, and one that is
  let through reaches \<^verbatim>\<open>deleteUser\<close> or \<^verbatim>\<open>updateUser\<close> with the same table.
\<close>

theorem isOwnAccount_gate:
  "(identity req = None \<longrightarrow> isOwnAccount req = Reject (sendStatus 403))
   \<and> (identity req = Some u \<and> params_id req \<noteq> Some (id_user u) \<longrightarrow>
        isOwnAccount req = Reject (sendStatus 403))
   \<and> (identity req = Some u \<and> params_id req = Some (id_user u) \<and> id_user u \<noteq> [] \<longrightarrow>
        isOwnAccount req = Next req)
   \<and> (isAuthenticated ev rows inbound = Next req \<and> isOwnAccount req = Reject r \<longrightarrow>
        delete_users_id ev rows inbound = (r, rows) \<and> patch_users_id ev rows inbound = (r, rows))
   \<and> (isAuthenticated ev rows inbound = Next req \<and> isOwnAccount req = Next passed \<longrightarrow>
        passed = req \<and> delete_users_id ev rows inbound = deleteUser ev rows req
        \<and> patch_users_id ev rows inbound = updateUser ev rows req)"
  by (auto simp: isOwnAccount_def falsy_def delete_users_id_def patch_users_id_def
           split: option.splits if_splits)

theorem isOwnAccount_gate_witness:
  "isOwnAccount blank = Reject (sendStatus 403)
   \<and> isOwnAccount (blank\<lparr>params_id := Some ''c1'', identity := Some bob\<rparr>) =
       Reject (sendStatus 403)
   \<and> isOwnAccount (blank\<lparr>params_id := Some ''c2'', identity := Some bob\<rparr>) =
       Next (blank\<lparr>params_id := Some ''c2'', identity := Some bob\<rparr>)
   \<and> delete_users_id sample_env sample_rows ((with_cookie ''$2b$10$old'')\<lparr>params_id := Some ''c1''\<rparr>) =
       (sendStatus 403, sample_rows)
   \<and> patch_users_id sample_env sample_rows ((with_cookie ''$2b$10$old'')\<lparr>params_id := Some ''c2''\<rparr>) =
       updateUser sample_env sample_rows
         ((with_cookie ''$2b$10$old'')\<lparr>params_id := Some ''c2'', identity := Some bob\<rparr>)"
proof -
  let ?other = "(with_cookie ''$2b$10$old'')\<lparr>params_id := Some ''c1''\<rparr>"
  let ?own = "(with_cookie ''$2b$10$old'')\<lparr>params_id := Some ''c2''\<rparr>"
  have h1: "identity blank = None"
    by (simp add: blank_def)
  have h2: "identity (blank\<lparr>params_id := Some ''c1'', identity := Some bob\<rparr>) = Some bob
      \<and> params_id (blank\<lparr>params_id := Some ''c1'', identity := Some bob\<rparr>) \<noteq> Some (id_user bob)"
    by (simp add: bob_def)
  have h3: "identity (blank\<lparr>params_id := Some ''c2'', identity := Some bob\<rparr>) = Some bob
      \<and> params_id (blank\<lparr>params_id := Some ''c2'', identity := Some bob\<rparr>) = Some (id_user bob)
      \<and> id_user bob \<noteq> []"
    by (simp add: bob_def)
  have h4: "isAuthenticated sample_env sample_rows ?other = Next (?other\<lparr>identity := Some bob\<rparr>)
      \<and> isOwnAccount (?other\<lparr>identity := Some bob\<rparr>) = Reject (sendStatus 403)"
    by (simp add: isAuthenticated_def isOwnAccount_def findFirst_sessionToken_def falsy_def
        falsy_cookie_def with_cookie_def sample_env_def sample_rows_def alice_def bob_def)
  have h5: "isAuthenticated sample_env sample_rows ?own = Next (?own\<lparr>identity := Some bob\<rparr>)
      \<and> isOwnAccount (?own\<lparr>identity := Some bob\<rparr>) = Next (?own\<lparr>identity := Some bob\<rparr>)"
    by (simp add: isAuthenticated_def isOwnAccount_def findFirst_sessionToken_def falsy_def
        falsy_cookie_def with_cookie_def sample_env_def sample_rows_def alice_def bob_def)
  from isOwnAccount_gate [where req = blank] h1
  have c1: "isOwnAccount blank = Reject (sendStatus 403)"
    by blast
  from isOwnAccount_gate [where req = "blank\<lparr>params_id := Some ''c1'', identity := Some bob\<rparr>"
      and u = bob] h2
  have c2: "isOwnAccount (blank\<lparr>params_id := Some ''c1'', identity := Some bob\<rparr>) =
       Reject (sendStatus 403)"
    by blast
  from isOwnAccount_gate [where req = "blank\<lparr>params_id := Some ''c2'', identity := Some bob\<rparr>"
      and u = bob] h3
  have c3: "isOwnAccount (blank\<lparr>params_id := Some ''c2'', identity := Some bob\<rparr>) =
       Next (blank\<lparr>params_id := Some ''c2'', identity := Some bob\<rparr>)"
    by blast
  from isOwnAccount_gate [where inbound = ?other and req = "?other\<lparr>identity := Some bob\<rparr>"
      and ev = sample_env and rows = sample_rows and r = "sendStatus 403"] h4
  have c4: "delete_users_id sample_env sample_rows ?other = (sendStatus 403, sample_rows)"
    by blast
  from isOwnAccount_gate [where inbound = ?own and req = "?own\<lparr>identity := Some bob\<rparr>"
      and passed = "?own\<lparr>identity := Some bob\<rparr>" and ev = sample_env and rows = sample_rows] h5
  have c5: "patch_users_id sample_env sample_rows ?own =
      updateUser sample_env sample_rows (?own\<lparr>identity := Some bob\<rparr>)"
    by blast
  from c1 c2 c3 c4 c5 show ?thesis by simp
qed


text \<open>
  C3 (Register). When \<^verbatim>\<open>email\<close>, \<^verbatim>\<open>password\<close> or \<^verbatim>\<open>username\<close> is missing
  (absent or empty, the test being \<^verbatim>\<open>!x\<close>) the answer is 400. Otherwise, when a stored
  record has the given email, the answer is 409. Otherwise, the storage calls succeeding
  and the generated identifier being fresh, a record is appended whose password field is
  the hash of the plaintext and whose \<^verbatim>\<open>sessionToken\<close> is absent, and that record is
  returned with status 200.
\<close>

theorem register_cases:
  "(falsy (body_email req) \<or> falsy (body_password req) \<or> falsy (body_username req) \<longrightarrow>
      register ev rows req = (sendStatus 400, rows))
   \<and> (body_email req = Some e \<and> e \<noteq> [] \<and> \<not> falsy (body_password req)
        \<and> \<not> falsy (body_username req) \<and> \<not> fault ev FindUnique
        \<and> (\<exists>u \<in> set rows. email u = e) \<longrightarrow>
      register ev rows req = (sendStatus 409, rows))
   \<and> (body_email req = Some e \<and> e \<noteq> [] \<and> body_password req = Some p \<and> p \<noteq> []
        \<and> body_username req = Some n \<and> n \<noteq> []
        \<and> \<not> fault ev FindUnique \<and> \<not> fault ev Create
        \<and> (\<forall>u \<in> set rows. email u \<noteq> e) \<and> (\<forall>u \<in> set rows. id_user u \<noteq> cuid ev) \<longrightarrow>
      register ev rows req =
        (\<lparr>status = 200,
          body = UserJson \<lparr>id_user = cuid ev, username = n, email = e,
                           password = bcrypt_hash ev p, salt = None, sessionToken = None\<rparr>,
          set_cookie = None\<rparr>,
         rows @ [\<lparr>id_user = cuid ev, username = n, email = e,
                  password = bcrypt_hash ev p, salt = None, sessionToken = None\<rparr>]))"
proof (intro conjI impI)
  assume "falsy (body_email req) \<or> falsy (body_password req) \<or> falsy (body_username req)"
  then show "register ev rows req = (sendStatus 400, rows)"
    by (auto simp: register_def falsy_def split: option.splits)
next
  assume a: "body_email req = Some e \<and> e \<noteq> [] \<and> \<not> falsy (body_password req)
        \<and> \<not> falsy (body_username req) \<and> \<not> fault ev FindUnique
        \<and> (\<exists>u \<in> set rows. email u = e)"
  then obtain y where "find (\<lambda>u. email u = e) rows = Some y"
    using find_Some_ex [of rows "\<lambda>u. email u = e"] by blast
  with a show "register ev rows req = (sendStatus 409, rows)"
    by (auto simp: register_def falsy_def findUnique_email_def split: option.splits)
next
  assume a: "body_email req = Some e \<and> e \<noteq> [] \<and> body_password req = Some p \<and> p \<noteq> []
        \<and> body_username req = Some n \<and> n \<noteq> []
        \<and> \<not> fault ev FindUnique \<and> \<not> fault ev Create
        \<and> (\<forall>u \<in> set rows. email u \<noteq> e) \<and> (\<forall>u \<in> set rows. id_user u \<noteq> cuid ev)"
  then have "find (\<lambda>u. email u = e) rows = None"
    by (simp add: find_None_iff)
  with a show "register ev rows req =
        (\<lparr>status = 200,
          body = UserJson \<lparr>id_user = cuid ev, username = n, email = e,
                           password = bcrypt_hash ev p, salt = None, sessionToken = None\<rparr>,
          set_cookie = None\<rparr>,
         rows @ [\<lparr>id_user = cuid ev, username = n, email = e,
                  password = bcrypt_hash ev p, salt = None, sessionToken = None\<rparr>])"
    by (simp add: register_def falsy_def findUnique_email_def create_def json_def Let_def)
qed

theorem register_cases_witness:
  "register sample_env sample_rows (signup ''c@x.com'' ''s'' []) = (sendStatus 400, sample_rows)
   \<and> register sample_env sample_rows (signup ''b@x.com'' ''s'' ''c'') =
       (sendStatus 409, sample_rows)
   \<and> register sample_env sample_rows (signup ''c@x.com'' ''s'' ''c'') =
       (\<lparr>status = 200, body = UserJson carol, set_cookie = None\<rparr>, sample_rows @ [carol])"
proof -
  have h1: "falsy (body_email (signup ''c@x.com'' ''s'' []))
      \<or> falsy (body_password (signup ''c@x.com'' ''s'' []))
      \<or> falsy (body_username (signup ''c@x.com'' ''s'' []))"
    by (simp add: signup_def falsy_def)
  have h2: "body_email (signup ''b@x.com'' ''s'' ''c'') = Some ''b@x.com'' \<and> ''b@x.com'' \<noteq> []
      \<and> \<not> falsy (body_password (signup ''b@x.com'' ''s'' ''c''))
      \<and> \<not> falsy (body_username (signup ''b@x.com'' ''s'' ''c''))
      \<and> \<not> fault sample_env FindUnique
      \<and> (\<exists>u \<in> set sample_rows. email u = ''b@x.com'')"
    by (simp add: signup_def falsy_def sample_env_def sample_rows_def bob_def)
  have h3: "body_email (signup ''c@x.com'' ''s'' ''c'') = Some ''c@x.com'' \<and> ''c@x.com'' \<noteq> []
      \<and> body_password (signup ''c@x.com'' ''s'' ''c'') = Some ''s'' \<and> ''s'' \<noteq> []
      \<and> body_username (signup ''c@x.com'' ''s'' ''c'') = Some ''c'' \<and> ''c'' \<noteq> []
      \<and> \<not> fault sample_env FindUnique \<and> \<not> fault sample_env Create
      \<and> (\<forall>u \<in> set sample_rows. email u \<noteq> ''c@x.com'')
      \<and> (\<forall>u \<in> set sample_rows. id_user u \<noteq> cuid sample_env)"
    by (simp add: signup_def sample_env_def sample_rows_def alice_def bob_def)
  have n: "\<lparr>id_user = cuid sample_env, username = ''c'', email = ''c@x.com'',
            password = bcrypt_hash sample_env ''s'', salt = None, sessionToken = None\<rparr> = carol"
    by (simp add: carol_def sample_env_def sample_hash_def)
  from register_cases [where req = "signup ''c@x.com'' ''s'' []" and ev = sample_env
      and rows = sample_rows] h1
  have c1: "register sample_env sample_rows (signup ''c@x.com'' ''s'' []) =
      (sendStatus 400, sample_rows)"
    by blast
  from register_cases [where req = "signup ''b@x.com'' ''s'' ''c''" and e = "''b@x.com''"
      and ev = sample_env and rows = sample_rows] h2
  have c2: "register sample_env sample_rows (signup ''b@x.com'' ''s'' ''c'') =
      (sendStatus 409, sample_rows)"
    by blast
  from register_cases [where req = "signup ''c@x.com'' ''s'' ''c''" and e = "''c@x.com''"
      and p = "''s''" and n = "''c''" and ev = sample_env and rows = sample_rows] h3
  have c3: "register sample_env sample_rows (signup ''c@x.com'' ''s'' ''c'') =
      (\<lparr>status = 200, body = UserJson carol, set_cookie = None\<rparr>, sample_rows @ [carol])"
    unfolding n by blast
  from c1 c2 c3 show ?thesis by blast
qed

text \<open>
  C4 (Login, failure paths). When \<^verbatim>\<open>email\<close> or \<^verbatim>\<open>password\<close> is missing (absent or
  empty) the answer is 400. When no stored record has the given email the answer is 401.
  When the stored record with that email has a hash against which the password does not
  verify, the answer is 401. The two answers 401 are the same response, and the table is
  unchanged in each, so the caller cannot tell an unknown email from a wrong password.
\<close>

theorem login_failures:
  "(falsy (body_email req) \<or> falsy (body_password req) \<longrightarrow>
      login ev rows req = (sendStatus 400, rows))
   \<and> (body_email req = Some e \<and> e \<noteq> [] \<and> \<not> falsy (body_password req)
        \<and> \<not> fault ev FindUnique \<and> (\<forall>u \<in> set rows. email u \<noteq> e) \<longrightarrow>
      login ev rows req = (sendStatus 401, rows))
   \<and> (body_email req = Some e \<and> e \<noteq> [] \<and> body_password req = Some p \<and> p \<noteq> []
        \<and> \<not> fault ev FindUnique \<and> table_ok rows \<and> u \<in> set rows \<and> email u = e
        \<and> \<not> bcrypt_compare ev p (password u) \<longrightarrow>
      login ev rows req = (sendStatus 401, rows))"
proof (intro conjI impI)
  assume "falsy (body_email req) \<or> falsy (body_password req)"
  then show "login ev rows req = (sendStatus 400, rows)"
    by (auto simp: login_def falsy_def split: option.splits)
next
  assume a: "body_email req = Some e \<and> e \<noteq> [] \<and> \<not> falsy (body_password req)
        \<and> \<not> fault ev FindUnique \<and> (\<forall>u \<in> set rows. email u \<noteq> e)"
  then have "find (\<lambda>u. email u = e) rows = None"
    by (simp add: find_None_iff)
  with a show "login ev rows req = (sendStatus 401, rows)"
    by (auto simp: login_def falsy_def findUnique_email_def split: option.splits)
next
  assume a: "body_email req = Some e \<and> e \<noteq> [] \<and> body_password req = Some p \<and> p \<noteq> []
        \<and> \<not> fault ev FindUnique \<and> table_ok rows \<and> u \<in> set rows \<and> email u = e
        \<and> \<not> bcrypt_compare ev p (password u)"
  then have "find (\<lambda>r. email r = e) rows = Some u"
    using find_email_row [of rows u] by auto
  with a show "login ev rows req = (sendStatus 401, rows)"
    by (simp add: login_def falsy_def findUnique_email_def)
qed

theorem login_failures_witness:
  "login sample_env sample_rows (blank\<lparr>body_email := Some ''a@x.com''\<rparr>) =
     (sendStatus 400, sample_rows)
   \<and> login sample_env sample_rows (credentials ''nobody@x.com'' ''p'') =
       (sendStatus 401, sample_rows)
   \<and> login sample_env sample_rows (credentials ''a@x.com'' ''wrong'') =
       (sendStatus 401, sample_rows)
   \<and> login sample_env sample_rows (credentials ''nobody@x.com'' ''p'') =
       login sample_env sample_rows (credentials ''a@x.com'' ''wrong'')"
proof -
  have h1: "falsy (body_email (blank\<lparr>body_email := Some ''a@x.com''\<rparr>))
      \<or> falsy (body_password (blank\<lparr>body_email := Some ''a@x.com''\<rparr>))"
    by (simp add: blank_def falsy_def)
  have h2: "body_email (credentials ''nobody@x.com'' ''p'') = Some ''nobody@x.com''
      \<and> ''nobody@x.com'' \<noteq> [] \<and> \<not> falsy (body_password (credentials ''nobody@x.com'' ''p''))
      \<and> \<not> fault sample_env FindUnique
      \<and> (\<forall>u \<in> set sample_rows. email u \<noteq> ''nobody@x.com'')"
    by (simp add: credentials_def falsy_def sample_env_def sample_rows_def alice_def bob_def)
  have "body_email (credentials ''a@x.com'' ''wrong'') = Some ''a@x.com''
      \<and> ''a@x.com'' \<noteq> [] \<and> body_password (credentials ''a@x.com'' ''wrong'') = Some ''wrong''
      \<and> ''wrong'' \<noteq> [] \<and> \<not> fault sample_env FindUnique
      \<and> alice \<in> set sample_rows \<and> email alice = ''a@x.com''
      \<and> \<not> bcrypt_compare sample_env ''wrong'' (password alice)"
    by (simp add: credentials_def sample_env_def sample_rows_def alice_def
        sample_compare_def sample_hash_def)
  with table_ok_sample
  have h3: "body_email (credentials ''a@x.com'' ''wrong'') = Some ''a@x.com''
      \<and> ''a@x.com'' \<noteq> [] \<and> body_password (credentials ''a@x.com'' ''wrong'') = Some ''wrong''
      \<and> ''wrong'' \<noteq> [] \<and> \<not> fault sample_env FindUnique \<and> table_ok sample_rows
      \<and> alice \<in> set sample_rows \<and> email alice = ''a@x.com''
      \<and> \<not> bcrypt_compare sample_env ''wrong'' (password alice)"
    by blast
  from login_failures [where req = "blank\<lparr>body_email := Some ''a@x.com''\<rparr>"
      and ev = sample_env and rows = sample_rows] h1
  have c1: "login sample_env sample_rows (blank\<lparr>body_email := Some ''a@x.com''\<rparr>) =
      (sendStatus 400, sample_rows)"
    by blast
  from login_failures [where req = "credentials ''nobody@x.com'' ''p''"
      and e = "''nobody@x.com''" and ev = sample_env and rows = sample_rows] h2
  have c2: "login sample_env sample_rows (credentials ''nobody@x.com'' ''p'') =
      (sendStatus 401, sample_rows)"
    by blast
  from login_failures [where req = "credentials ''a@x.com'' ''wrong''" and e = "''a@x.com''"
      and p = "''wrong''" and u = alice and ev = sample_env and rows = sample_rows] h3
  have c3: "login sample_env sample_rows (credentials ''a@x.com'' ''wrong'') =
      (sendStatus 401, sample_rows)"
    by blast
  from c1 c2 c3 show ?thesis by simp
qed

text \<open>
  C5 (Login, success). For a login whose email is that of a stored record and whose
  password verifies against the stored hash, the storage calls succeeding: the token is
  the hash primitive applied to the user's \<^verbatim>\<open>id\<close>; it is written to that user's record
  in place of whatever \<^verbatim>\<open>sessionToken\<close> was there; the response has status 200, sets the
  cookie \<^verbatim>\<open>EXPRESS-API-AUTH\<close> to the token, and its body is the updated record restricted
  to \<^verbatim>\<open>id\<close>, \<^verbatim>\<open>email\<close>, \<^verbatim>\<open>username\<close> and \<^verbatim>\<open>sessionToken\<close>, the last being the
  cookie's value.
\<close>

theorem login_success:
  assumes "table_ok rows" "u \<in> set rows"
    and "body_email req = Some (email u)" "email u \<noteq> []"
    and "body_password req = Some p" "p \<noteq> []"
    and "bcrypt_compare ev p (password u)"
    and "\<not> fault ev FindUnique" "\<not> fault ev Update"
    and "login ev rows req = (res, rows')"
  shows "status res = 200
     \<and> body res = SelectedJson \<lparr>id_sel = id_user u, email_sel = email u,
                                 username_sel = username u,
                                 sessionToken_sel = Some (bcrypt_hash ev (id_user u))\<rparr>
     \<and> set_cookie res = Some \<lparr>cookie_name = ''EXPRESS-API-AUTH'',
                               cookie_value = bcrypt_hash ev (id_user u),
                               cookie_domain = ''localhost'', cookie_path = ''/''\<rparr>
     \<and> rows' = map (\<lambda>r. if id_user r = id_user u
                         then r\<lparr>sessionToken := Some (bcrypt_hash ev (id_user u))\<rparr> else r) rows
     \<and> u\<lparr>sessionToken := Some (bcrypt_hash ev (id_user u))\<rparr> \<in> set rows'
     \<and> (\<forall>r \<in> set rows'. id_user r = id_user u \<longrightarrow>
           sessionToken r = Some (bcrypt_hash ev (id_user u)))"
proof -
  let ?t = "bcrypt_hash ev (id_user u)"
  from login_ok [OF assms(1-9)] assms(10)
  have r: "res = \<lparr>status = 200,
       body = SelectedJson \<lparr>id_sel = id_user u, email_sel = email u, username_sel = username u,
                            sessionToken_sel = Some ?t\<rparr>,
       set_cookie = Some \<lparr>cookie_name = ''EXPRESS-API-AUTH'', cookie_value = ?t,
                          cookie_domain = ''localhost'', cookie_path = ''/''\<rparr>\<rparr>"
    and t: "rows' = map (\<lambda>r. if id_user r = id_user u then r\<lparr>sessionToken := Some ?t\<rparr> else r) rows"
    by simp_all
  have m: "u\<lparr>sessionToken := Some ?t\<rparr> \<in> set rows'"
    unfolding t using assms(2) by (auto simp: image_iff intro!: bexI [of _ u])
  have a: "\<forall>r \<in> set rows'. id_user r = id_user u \<longrightarrow> sessionToken r = Some ?t"
    unfolding t by auto
  have s: "status res = 200"
    "body res = SelectedJson \<lparr>id_sel = id_user u, email_sel = email u,
                              username_sel = username u, sessionToken_sel = Some ?t\<rparr>"
    "set_cookie res = Some \<lparr>cookie_name = ''EXPRESS-API-AUTH'', cookie_value = ?t,
                            cookie_domain = ''localhost'', cookie_path = ''/''\<rparr>"
    unfolding r by simp_all
  from s t m a show ?thesis
    by - (intro conjI; assumption)
qed

theorem login_success_witness:
  "status (fst (login sample_env sample_rows (credentials ''b@x.com'' ''q''))) = 200
   \<and> body (fst (login sample_env sample_rows (credentials ''b@x.com'' ''q''))) =
       SelectedJson \<lparr>id_sel = ''c2'', email_sel = ''b@x.com'', username_sel = ''b'',
                      sessionToken_sel = Some ''$2b$10$c2''\<rparr>
   \<and> set_cookie (fst (login sample_env sample_rows (credentials ''b@x.com'' ''q''))) =
       Some \<lparr>cookie_name = ''EXPRESS-API-AUTH'', cookie_value = ''$2b$10$c2'',
             cookie_domain = ''localhost'', cookie_path = ''/''\<rparr>
   \<and> snd (login sample_env sample_rows (credentials ''b@x.com'' ''q'')) =
       [alice, bob\<lparr>sessionToken := Some ''$2b$10$c2''\<rparr>]"
proof -
  let ?l = "login sample_env sample_rows (credentials ''b@x.com'' ''q'')"
  have l: "?l = (fst ?l, snd ?l)"
    by simp
  have h: "table_ok sample_rows" "bob \<in> set sample_rows"
    "body_email (credentials ''b@x.com'' ''q'') = Some (email bob)" "email bob \<noteq> []"
    "body_password (credentials ''b@x.com'' ''q'') = Some ''q''" "''q'' \<noteq> []"
    "bcrypt_compare sample_env ''q'' (password bob)"
    "\<not> fault sample_env FindUnique" "\<not> fault sample_env Update"
    using sample_login by blast+
  have v: "bcrypt_hash sample_env (id_user bob) = ''$2b$10$c2''"
    by (simp add: sample_env_def sample_hash_def bob_def)
  have w: "id_user bob = ''c2''" "email bob = ''b@x.com''" "username bob = ''b''"
    "id_user alice \<noteq> id_user bob"
    by (simp_all add: bob_def alice_def)
  have m: "map (\<lambda>r. if id_user r = id_user bob then r\<lparr>sessionToken := Some ''$2b$10$c2''\<rparr> else r)
             sample_rows = [alice, bob\<lparr>sessionToken := Some ''$2b$10$c2''\<rparr>]"
    using w(4) by (simp add: sample_rows_def)
  note c = login_success [OF h l, unfolded v, unfolded m, unfolded w(1-3)]
  from c show ?thesis
    by - (intro conjI; (elim conjE, assumption))
qed

text \<open>
  C6 (Login, then the gate). After a successful login of a user, which stored the token
  and set the cookie to it, a later request that carries the cookie login wrote, under
  the name login wrote it, passes the Authentication Gate and has that user's updated
  record as its identity, provided no other user's stored token equals the token and the
  lookup does not fail. The token is not empty, as no digest of the hash primitive is.
  The gate compares the stored token with the cookie: whatever the hash primitive would
  compute in the later request has no part in its answer.
\<close>

theorem login_then_gate:
  assumes "table_ok rows" "u \<in> set rows"
    and "body_email req = Some (email u)" "email u \<noteq> []"
    and "body_password req = Some p" "p \<noteq> []"
    and "bcrypt_compare ev p (password u)"
    and "\<not> fault ev FindUnique" "\<not> fault ev Update"
    and "login ev rows req = (res, rows')"
    and "set_cookie res = Some c"
    and "cookie_value c \<noteq> []"
    and "\<forall>r \<in> set rows. id_user r \<noteq> id_user u \<longrightarrow> sessionToken r \<noteq> Some (cookie_value c)"
    and "cookies req' (cookie_name c) = Some (JStr (cookie_value c))"
    and "\<not> fault ev' FindFirst"
  shows "isAuthenticated ev' rows' req' =
           Next (req'\<lparr>identity := Some (u\<lparr>sessionToken := Some (cookie_value c)\<rparr>)\<rparr>)
         \<and> u\<lparr>sessionToken := Some (cookie_value c)\<rparr> \<in> set rows'
         \<and> isAuthenticated (ev'\<lparr>bcrypt_hash := h, bcrypt_compare := k\<rparr>) rows' req' =
             isAuthenticated ev' rows' req'"
proof -
  let ?t = "bcrypt_hash ev (id_user u)"
  let ?rows = "map (\<lambda>r. if id_user r = id_user u then r\<lparr>sessionToken := Some ?t\<rparr> else r) rows"
  from login_ok [OF assms(1-9)] assms(10,11)
  have c: "cookie_name c = ''EXPRESS-API-AUTH''" "cookie_value c = ?t" and r: "rows' = ?rows"
    by auto
  from assms(13) c
  have "\<forall>r \<in> set rows. id_user r \<noteq> id_user u \<longrightarrow> sessionToken r \<noteq> Some ?t"
    by simp
  from find_token_after_update [OF assms(1,2) this]
  have f: "find (\<lambda>r. sessionToken r = Some ?t) rows' = Some (u\<lparr>sessionToken := Some ?t\<rparr>)"
    unfolding r .
  have g: "isAuthenticated ev' rows' req' =
      Next (req'\<lparr>identity := Some (u\<lparr>sessionToken := Some ?t\<rparr>)\<rparr>)"
    using f assms(12,14,15) c
    by (simp add: isAuthenticated_def findFirst_sessionToken_def falsy_cookie_def)
  have m: "u\<lparr>sessionToken := Some ?t\<rparr> \<in> set rows'"
    unfolding r using assms(2) by (auto simp: image_iff intro!: bexI [of _ u])
  have i: "isAuthenticated (ev'\<lparr>bcrypt_hash := h, bcrypt_compare := k\<rparr>) rows' req' =
             isAuthenticated ev' rows' req'"
    by (simp add: isAuthenticated_def findFirst_sessionToken_def
        split: option.splits json.splits)
  from g m i show ?thesis
    unfolding c by - (intro conjI; assumption)
qed

theorem login_then_gate_witness:
  "isAuthenticated sample_env (snd (login sample_env sample_rows (credentials ''b@x.com'' ''q'')))
     (with_cookie ''$2b$10$c2'') =
   Next ((with_cookie ''$2b$10$c2'')\<lparr>identity := Some (bob\<lparr>sessionToken := Some ''$2b$10$c2''\<rparr>)\<rparr>)"
proof -
  let ?l = "login sample_env sample_rows (credentials ''b@x.com'' ''q'')"
  let ?c = "\<lparr>cookie_name = ''EXPRESS-API-AUTH'', cookie_value = ''$2b$10$c2'',
             cookie_domain = ''localhost'', cookie_path = ''/''\<rparr>"
  have l: "?l = (fst ?l, snd ?l)"
    by simp
  have h: "table_ok sample_rows" "bob \<in> set sample_rows"
    "body_email (credentials ''b@x.com'' ''q'') = Some (email bob)" "email bob \<noteq> []"
    "body_password (credentials ''b@x.com'' ''q'') = Some ''q''" "''q'' \<noteq> []"
    "bcrypt_compare sample_env ''q'' (password bob)"
    "\<not> fault sample_env FindUnique" "\<not> fault sample_env Update"
    using sample_login by blast+
  have v: "bcrypt_hash sample_env (id_user bob) = ''$2b$10$c2''"
    by (simp add: sample_env_def sample_hash_def bob_def)
  have s: "set_cookie (fst ?l) = Some ?c"
    unfolding login_ok [OF h] v by simp
  have n: "cookie_value ?c \<noteq> []"
    by simp
  have o: "\<forall>r \<in> set sample_rows. id_user r \<noteq> id_user bob \<longrightarrow>
      sessionToken r \<noteq> Some (cookie_value ?c)"
    by (simp add: sample_rows_def alice_def bob_def)
  have q: "cookies (with_cookie ''$2b$10$c2'') (cookie_name ?c) = Some (JStr (cookie_value ?c))"
    by (simp add: with_cookie_def)
  have e: "\<not> fault sample_env FindFirst"
    by (simp add: sample_env_def)
  have z: "cookie_value ?c = ''$2b$10$c2''"
    by simp
  from login_then_gate [OF h l s n o q e, unfolded z, THEN conjunct1] show ?thesis .
qed

text \<open>
  C7 (Registration conflict). In a table that holds a user with email \<open>E\<close>, a registration
  with email \<open>E\<close> (and a password and a username, the lookup succeeding) is answered 409
  and returns the table it was given: every record, the first user's among them, is as
  it was.
\<close>

theorem register_conflict_atomic:
  assumes "u \<in> set rows"
    and "body_email req = Some (email u)" "email u \<noteq> []"
    and "\<not> falsy (body_password req)" "\<not> falsy (body_username req)"
    and "\<not> fault ev FindUnique"
  shows "register ev rows req = (sendStatus 409, rows)"
proof -
  from assms(1) obtain y where "find (\<lambda>r. email r = email u) rows = Some y"
    using find_Some_ex [of rows "\<lambda>r. email r = email u"] by blast
  with assms(2-6) show ?thesis
    by (auto simp: register_def falsy_def findUnique_email_def split: option.splits)
qed

theorem register_conflict_atomic_witness:
  "register sample_env sample_rows (signup ''a@x.com'' ''other'' ''impostor'') =
     (sendStatus 409, sample_rows)"
proof -
  have h: "alice \<in> set sample_rows"
    "body_email (signup ''a@x.com'' ''other'' ''impostor'') = Some (email alice)"
    "email alice \<noteq> []"
    "\<not> falsy (body_password (signup ''a@x.com'' ''other'' ''impostor''))"
    "\<not> falsy (body_username (signup ''a@x.com'' ''other'' ''impostor''))"
    "\<not> fault sample_env FindUnique"
    by (simp_all add: sample_rows_def alice_def signup_def falsy_def sample_env_def)
  from register_conflict_atomic [OF h] show ?thesis .
qed

text \<open>
  C8 (Update). When \<^verbatim>\<open>username\<close> is missing (absent or empty) the answer is 400. When
  no record has the target \<^verbatim>\<open>id\<close> the answer is 400. Otherwise, the storage calls
  succeeding, the record's \<^verbatim>\<open>username\<close> is overwritten with the new value and the whole
  updated record, with its password hash and \<^verbatim>\<open>sessionToken\<close> as they were, is returned
  with status 200.
\<close>

theorem updateUser_cases:
  "(falsy (body_username req) \<longrightarrow> updateUser ev rows req = (sendStatus 400, rows))
   \<and> (params_id req = Some i \<and> \<not> fault ev FindUnique
        \<and> (\<forall>r \<in> set rows. id_user r \<noteq> i) \<longrightarrow>
      updateUser ev rows req = (sendStatus 400, rows))
   \<and> (body_username req = Some n \<and> n \<noteq> [] \<and> params_id req = Some i
        \<and> \<not> fault ev FindUnique \<and> \<not> fault ev Update
        \<and> table_ok rows \<and> u \<in> set rows \<and> id_user u = i \<longrightarrow>
      updateUser ev rows req =
        (\<lparr>status = 200, body = UserJson (u\<lparr>username := n\<rparr>), set_cookie = None\<rparr>,
         map (\<lambda>r. if id_user r = i then r\<lparr>username := n\<rparr> else r) rows)
      \<and> password (u\<lparr>username := n\<rparr>) = password u
      \<and> sessionToken (u\<lparr>username := n\<rparr>) = sessionToken u
      \<and> u\<lparr>username := n\<rparr> \<in> set (snd (updateUser ev rows req)))"
proof (intro conjI impI)
  assume "falsy (body_username req)"
  then show "updateUser ev rows req = (sendStatus 400, rows)"
    by (auto simp: updateUser_def falsy_def split: option.splits)
next
  assume a: "params_id req = Some i \<and> \<not> fault ev FindUnique
        \<and> (\<forall>r \<in> set rows. id_user r \<noteq> i)"
  then have "find (\<lambda>r. id_user r = i) rows = None"
    by (simp add: find_None_iff)
  with a show "updateUser ev rows req = (sendStatus 400, rows)"
    by (simp add: updateUser_def findUnique_id_def split: option.splits)
next
  assume a: "body_username req = Some n \<and> n \<noteq> [] \<and> params_id req = Some i
        \<and> \<not> fault ev FindUnique \<and> \<not> fault ev Update
        \<and> table_ok rows \<and> u \<in> set rows \<and> id_user u = i"
  then have "find (\<lambda>r. id_user r = i) rows = Some u"
    using find_id_row [of rows u] by auto
  with a show d: "updateUser ev rows req =
        (\<lparr>status = 200, body = UserJson (u\<lparr>username := n\<rparr>), set_cookie = None\<rparr>,
         map (\<lambda>r. if id_user r = i then r\<lparr>username := n\<rparr> else r) rows)"
    by (simp add: updateUser_def falsy_def findUnique_id_def update_def json_def)
  show "password (u\<lparr>username := n\<rparr>) = password u"
    by simp
  show "sessionToken (u\<lparr>username := n\<rparr>) = sessionToken u"
    by simp
  from a show "u\<lparr>username := n\<rparr> \<in> set (snd (updateUser ev rows req))"
    unfolding d by (auto simp: image_iff intro!: bexI [of _ u])
qed

theorem updateUser_cases_witness:
  "updateUser sample_env sample_rows (blank\<lparr>params_id := Some ''c2''\<rparr>) =
     (sendStatus 400, sample_rows)
   \<and> updateUser sample_env sample_rows (rename ''c9'' ''robert'') = (sendStatus 400, sample_rows)
   \<and> updateUser sample_env sample_rows (rename ''c2'' ''robert'') =
       (\<lparr>status = 200, body = UserJson (bob\<lparr>username := ''robert''\<rparr>), set_cookie = None\<rparr>,
        [alice, bob\<lparr>username := ''robert''\<rparr>])"
proof -
  have h1: "falsy (body_username (blank\<lparr>params_id := Some ''c2''\<rparr>))"
    by (simp add: blank_def falsy_def)
  have h2: "params_id (rename ''c9'' ''robert'') = Some ''c9'' \<and> \<not> fault sample_env FindUnique
      \<and> (\<forall>r \<in> set sample_rows. id_user r \<noteq> ''c9'')"
    by (simp add: rename_def sample_env_def sample_rows_def alice_def bob_def)
  have "body_username (rename ''c2'' ''robert'') = Some ''robert'' \<and> ''robert'' \<noteq> []
      \<and> params_id (rename ''c2'' ''robert'') = Some ''c2''
      \<and> \<not> fault sample_env FindUnique \<and> \<not> fault sample_env Update
      \<and> bob \<in> set sample_rows \<and> id_user bob = ''c2''"
    by (simp add: rename_def sample_env_def sample_rows_def bob_def)
  with table_ok_sample
  have h3: "body_username (rename ''c2'' ''robert'') = Some ''robert'' \<and> ''robert'' \<noteq> []
      \<and> params_id (rename ''c2'' ''robert'') = Some ''c2''
      \<and> \<not> fault sample_env FindUnique \<and> \<not> fault sample_env Update
      \<and> table_ok sample_rows \<and> bob \<in> set sample_rows \<and> id_user bob = ''c2''"
    by blast
  have m: "map (\<lambda>r. if id_user r = ''c2'' then r\<lparr>username := ''robert''\<rparr> else r) sample_rows =
      [alice, bob\<lparr>username := ''robert''\<rparr>]"
    by (simp add: sample_rows_def alice_def bob_def)
  from updateUser_cases [where req = "blank\<lparr>params_id := Some ''c2''\<rparr>" and ev = sample_env
      and rows = sample_rows] h1
  have c1: "updateUser sample_env sample_rows (blank\<lparr>params_id := Some ''c2''\<rparr>) =
      (sendStatus 400, sample_rows)"
    by blast
  from updateUser_cases [where req = "rename ''c9'' ''robert''" and i = "''c9''"
      and ev = sample_env and rows = sample_rows] h2
  have c2: "updateUser sample_env sample_rows (rename ''c9'' ''robert'') =
      (sendStatus 400, sample_rows)"
    by blast
  from updateUser_cases [where req = "rename ''c2'' ''robert''" and i = "''c2''"
      and n = "''robert''" and u = bob and ev = sample_env and rows = sample_rows] h3
  have c3: "updateUser sample_env sample_rows (rename ''c2'' ''robert'') =
       (\<lparr>status = 200, body = UserJson (bob\<lparr>username := ''robert''\<rparr>), set_cookie = None\<rparr>,
        [alice, bob\<lparr>username := ''robert''\<rparr>])"
    unfolding m by blast
  from c1 c2 c3 show ?thesis
    by - (intro conjI; assumption)
qed

text \<open>
  C9 (Delete). When a record with the target \<^verbatim>\<open>id\<close> exists, the delete succeeding, it
  is removed from the table, the other records stay, and the record as it was before is
  returned with status 200. When no record has the target \<^verbatim>\<open>id\<close> the answer is 400,
  which is not the not-found status 404, and the table is unchanged.
\<close>

theorem deleteUser_cases:
  "(params_id req = Some i \<and> \<not> fault ev Delete \<and> table_ok rows
        \<and> u \<in> set rows \<and> id_user u = i \<longrightarrow>
      deleteUser ev rows req =
        (\<lparr>status = 200, body = UserJson u, set_cookie = None\<rparr>,
         filter (\<lambda>r. id_user r \<noteq> i) rows)
      \<and> (\<forall>r \<in> set (snd (deleteUser ev rows req)). id_user r \<noteq> i)
      \<and> set (snd (deleteUser ev rows req)) = set rows - {u})
   \<and> (params_id req = Some i \<and> \<not> fault ev Delete
        \<and> (\<forall>r \<in> set rows. id_user r \<noteq> i) \<longrightarrow>
      deleteUser ev rows req = (sendStatus 400, rows)
      \<and> status (fst (deleteUser ev rows req)) \<noteq> 404)"
proof (intro conjI impI)
  assume a: "params_id req = Some i \<and> \<not> fault ev Delete \<and> table_ok rows
        \<and> u \<in> set rows \<and> id_user u = i"
  then have f: "find (\<lambda>r. id_user r = i) rows = Some u"
    using find_id_row [of rows u] by auto
  with a show d: "deleteUser ev rows req =
        (\<lparr>status = 200, body = UserJson u, set_cookie = None\<rparr>,
         filter (\<lambda>r. id_user r \<noteq> i) rows)"
    by (simp add: deleteUser_def delete_def json_def)
  then show "\<forall>r \<in> set (snd (deleteUser ev rows req)). id_user r \<noteq> i"
    by simp
  from a have t: "table_ok rows" and m: "u \<in> set rows" and i: "i = id_user u"
    by simp_all
  have "set (filter (\<lambda>r. id_user r \<noteq> id_user u) rows) = set rows - {u}"
    using same_id_same_row [OF t m] by auto
  then show "set (snd (deleteUser ev rows req)) = set rows - {u}"
    unfolding d i by simp
next
  assume a: "params_id req = Some i \<and> \<not> fault ev Delete
        \<and> (\<forall>r \<in> set rows. id_user r \<noteq> i)"
  then have "find (\<lambda>r. id_user r = i) rows = None"
    by (simp add: find_None_iff)
  with a show d: "deleteUser ev rows req = (sendStatus 400, rows)"
    by (simp add: deleteUser_def delete_def)
  then show "status (fst (deleteUser ev rows req)) \<noteq> 404"
    by (simp add: sendStatus_def)
qed

theorem deleteUser_cases_witness:
  "deleteUser sample_env sample_rows (blank\<lparr>params_id := Some ''c1''\<rparr>) =
     (\<lparr>status = 200, body = UserJson alice, set_cookie = None\<rparr>, [bob])
   \<and> deleteUser sample_env sample_rows (blank\<lparr>params_id := Some ''c9''\<rparr>) =
       (sendStatus 400, sample_rows)"
proof -
  have "params_id (blank\<lparr>params_id := Some ''c1''\<rparr>) = Some ''c1''
      \<and> \<not> fault sample_env Delete \<and> alice \<in> set sample_rows \<and> id_user alice = ''c1''"
    by (simp add: sample_env_def sample_rows_def alice_def)
  with table_ok_sample
  have h1: "params_id (blank\<lparr>params_id := Some ''c1''\<rparr>) = Some ''c1''
      \<and> \<not> fault sample_env Delete \<and> table_ok sample_rows
      \<and> alice \<in> set sample_rows \<and> id_user alice = ''c1''"
    by blast
  have h2: "params_id (blank\<lparr>params_id := Some ''c9''\<rparr>) = Some ''c9''
      \<and> \<not> fault sample_env Delete \<and> (\<forall>r \<in> set sample_rows. id_user r \<noteq> ''c9'')"
    by (simp add: sample_env_def sample_rows_def alice_def bob_def)
  have m: "filter (\<lambda>r. id_user r \<noteq> ''c1'') sample_rows = [bob]"
    by (simp add: sample_rows_def alice_def bob_def)
  from deleteUser_cases [where req = "blank\<lparr>params_id := Some ''c1''\<rparr>" and i = "''c1''"
      and u = alice and ev = sample_env and rows = sample_rows] h1
  have c1: "deleteUser sample_env sample_rows (blank\<lparr>params_id := Some ''c1''\<rparr>) =
     (\<lparr>status = 200, body = UserJson alice, set_cookie = None\<rparr>, [bob])"
    unfolding m by blast
  from deleteUser_cases [where req = "blank\<lparr>params_id := Some ''c9''\<rparr>" and i = "''c9''"
      and ev = sample_env and rows = sample_rows] h2
  have c2: "deleteUser sample_env sample_rows (blank\<lparr>params_id := Some ''c9''\<rparr>) =
       (sendStatus 400, sample_rows)"
    by blast
  from c1 c2 show ?thesis
    by - (intro conjI; assumption)
qed

text \<open>
  C10 (Frame of login). A login answered with status 200 leaves the table with the same
  rows in the same order; in every row the \<^verbatim>\<open>id\<close>, \<^verbatim>\<open>email\<close>, \<^verbatim>\<open>username\<close>,
  password hash and \<^verbatim>\<open>salt\<close> are as before, so that only \<^verbatim>\<open>sessionToken\<close> can differ;
  and every row of another user than the one who logged in is unchanged altogether.
\<close>

theorem login_frame:
  assumes "login ev rows req = (res, rows')" and "status res = 200"
  shows "\<exists>u \<in> set rows. body_email req = Some (email u)
     \<and> length rows' = length rows
     \<and> (\<forall>j < length rows.
           id_user (rows' ! j) = id_user (rows ! j)
         \<and> email (rows' ! j) = email (rows ! j)
         \<and> username (rows' ! j) = username (rows ! j)
         \<and> password (rows' ! j) = password (rows ! j)
         \<and> salt (rows' ! j) = salt (rows ! j)
         \<and> (id_user (rows ! j) \<noteq> id_user u \<longrightarrow> rows' ! j = rows ! j)
         \<and> (id_user (rows ! j) = id_user u \<longrightarrow>
               rows' ! j = (rows ! j)\<lparr>sessionToken := Some (bcrypt_hash ev (id_user u))\<rparr>))"
proof -
  from login_200 [OF assms] obtain e u where
    e: "body_email req = Some e" and f: "find (\<lambda>r. email r = e) rows = Some u"
    and r: "rows' = map (\<lambda>r. if id_user r = id_user u
                then r\<lparr>sessionToken := Some (bcrypt_hash ev (id_user u))\<rparr> else r) rows"
    by blast
  from f have u: "u \<in> set rows" "email u = e"
    by (auto simp: find_Some_iff)
  have "length rows' = length rows
     \<and> (\<forall>j < length rows.
           id_user (rows' ! j) = id_user (rows ! j)
         \<and> email (rows' ! j) = email (rows ! j)
         \<and> username (rows' ! j) = username (rows ! j)
         \<and> password (rows' ! j) = password (rows ! j)
         \<and> salt (rows' ! j) = salt (rows ! j)
         \<and> (id_user (rows ! j) \<noteq> id_user u \<longrightarrow> rows' ! j = rows ! j)
         \<and> (id_user (rows ! j) = id_user u \<longrightarrow>
               rows' ! j = (rows ! j)\<lparr>sessionToken := Some (bcrypt_hash ev (id_user u))\<rparr>))"
    unfolding r by simp
  with u e show ?thesis by blast
qed

theorem login_frame_witness:
  "snd (login sample_env sample_rows (credentials ''b@x.com'' ''q'')) ! 0 = alice
   \<and> length (snd (login sample_env sample_rows (credentials ''b@x.com'' ''q''))) = 2
   \<and> password (snd (login sample_env sample_rows (credentials ''b@x.com'' ''q'')) ! 1) =
       ''$2b$10$q''"
proof -
  let ?l = "login sample_env sample_rows (credentials ''b@x.com'' ''q'')"
  have l: "?l = (fst ?l, snd ?l)"
    by simp
  have h: "table_ok sample_rows" "bob \<in> set sample_rows"
    "body_email (credentials ''b@x.com'' ''q'') = Some (email bob)" "email bob \<noteq> []"
    "body_password (credentials ''b@x.com'' ''q'') = Some ''q''" "''q'' \<noteq> []"
    "bcrypt_compare sample_env ''q'' (password bob)"
    "\<not> fault sample_env FindUnique" "\<not> fault sample_env Update"
    using sample_login by blast+
  have s: "status (fst ?l) = 200"
    unfolding login_ok [OF h] by simp
  from login_frame [OF l s] obtain u where u: "u \<in> set sample_rows"
    "body_email (credentials ''b@x.com'' ''q'') = Some (email u)"
    and n: "length (snd ?l) = length sample_rows"
    and a: "\<forall>j < length sample_rows.
        password (snd ?l ! j) = password (sample_rows ! j)
        \<and> (id_user (sample_rows ! j) \<noteq> id_user u \<longrightarrow> snd ?l ! j = sample_rows ! j)"
    by blast
  from u have "u = bob"
    by (auto simp: sample_rows_def credentials_def blank_def alice_def bob_def)
  with a have "password (snd ?l ! 1) = password (sample_rows ! 1)"
    and "snd ?l ! 0 = sample_rows ! 0"
    by (simp_all add: sample_rows_def alice_def bob_def)
  with n show ?thesis
    by (simp add: sample_rows_def bob_def)
qed

end
